theory Spec2Isabelle
  imports Main "HOL-Library.AList"
begin

section \<open>Text\<close>

text \<open>
  Python strings are modelled as \<^typ>\<open>string\<close>, one \<^typ>\<open>char\<close> per code point below 256.
  \<^verbatim>\<open>str.isspace\<close> holds on exactly these code points of that range:
  9 to 13, 28 to 31, 32, 133 and 160.
\<close>

definition isspace :: "char \<Rightarrow> bool" where
  "isspace c = (of_char c \<in> {9, 10, 11, 12, 13, 28, 29, 30, 31, 32, 133, 160 :: nat})"

text \<open>\<^verbatim>\<open>str.lstrip()\<close>, \<^verbatim>\<open>str.rstrip()\<close> and \<^verbatim>\<open>str.strip()\<close> without argument.\<close>

definition lstrip :: "string \<Rightarrow> string" where
  "lstrip s = dropWhile isspace s"

definition rstrip :: "string \<Rightarrow> string" where
  "rstrip s = rev (dropWhile isspace (rev s))"

definition strip :: "string \<Rightarrow> string" where
  "strip s = rstrip (lstrip s)"

text \<open>\<^verbatim>\<open>str(n)\<close> on an integer, as the f-strings and \<^verbatim>\<open>str(self.port)\<close> use it.\<close>

definition digit :: "nat \<Rightarrow> char" where
  "digit d = ''0123456789'' ! d"

function str_nat :: "nat \<Rightarrow> string" where
  "str_nat n = (if n < 10 then [digit n] else str_nat (n div 10) @ [digit (n mod 10)])"
  by pat_completeness auto
termination
  by (relation "measure (\<lambda>n. n)") auto

definition str_int :: "int \<Rightarrow> string" where
  "str_int i = (if i < 0 then CHR ''-'' # str_nat (nat (- i)) else str_nat (nat i))"

section \<open>Effects\<close>

text \<open>
  Everything the program does to the outside is appended to a trace of events, in
  program order: a line printed (\<^verbatim>\<open>print\<close> appends the newline itself), the call of
  \<^verbatim>\<open>subprocess.Popen\<close> with its command, the start of a capture thread, a write to and a
  flush of the standard input of the process with the given PID, \<^verbatim>\<open>terminate()\<close>,
  \<^verbatim>\<open>wait()\<close>, and \<^verbatim>\<open>time.sleep\<close> with its duration in milliseconds.
\<close>

datatype stream = Stdout | Stderr

datatype capture = Read_stdout | Read_stderr

datatype event =
    Print stream string
  | Popen "string list"
  | Thread_start nat capture
  | Stdin_write nat string
  | Stdin_flush nat
  | Terminate nat
  | Wait nat
  | Sleep_ms nat

text \<open>
  What \<^verbatim>\<open>subprocess.Popen\<close> does is decided by the operating system: it returns a
  handle (here its PID), raises \<^verbatim>\<open>FileNotFoundError\<close>, or raises another exception
  \<^verbatim>\<open>e\<close> (here \<^verbatim>\<open>str(e)\<close>).
\<close>

datatype spawn_result = Spawned nat | Spawn_FileNotFound | Spawn_Exception string

datatype py_error = KeyError | RuntimeError | BrokenPipeError

text \<open>
  What a write to the standard input of the child does is decided by the operating
  system as well: it is accepted, it raises \<^verbatim>\<open>BrokenPipeError\<close> (the child has
  exited), or it blocks for ever (the pipe is full and the child never reads).
\<close>

datatype write_result = Written | Broken_pipe | Blocked

text \<open>
  A call returns a value, raises, or never returns. The two methods that use this
  type change nothing before the point where they can raise, so an exception leaves
  the objects and the trace as they were before the call.
\<close>

datatype 'a outcome = Return 'a | Raise py_error | Hang

text \<open>
  Where a capture thread is in its loop: about to test \<^verbatim>\<open>self.running\<close>, inside
  \<^verbatim>\<open>readline()\<close>, or past the end of the loop.
\<close>

datatype reader = At_test | In_readline | Ended

section \<open>NetcatListener\<close>

record listener =
  port :: int
  process :: "nat option"
  stdout_queue :: "string list"
  stderr_queue :: "string list"
  running :: bool

text \<open>\<^verbatim>\<open>NetcatListener.__init__\<close>\<close>

definition NetcatListener :: "int \<Rightarrow> listener" where
  "NetcatListener p =
     \<lparr>port = p, process = None, stdout_queue = [], stderr_queue = [], running = True\<rparr>"

text \<open>
  \<^verbatim>\<open>NetcatListener.start\<close>. Both \<^verbatim>\<open>except\<close> clauses print to the error stream and
  return normally, with \<^verbatim>\<open>self.process\<close> still \<^verbatim>\<open>None\<close>.
\<close>

definition start :: "spawn_result \<Rightarrow> listener \<Rightarrow> event list \<Rightarrow> listener \<times> event list" where
  "start r self out =
     (let command = [''nc'', ''-l'', ''-p'', str_int (port self)];
          out1 = out @ [Print Stdout (''Starting netcat listener on port '' @ str_int (port self) @ ''...''),
                        Popen command]
      in case r of
           Spawned pid \<Rightarrow>
             (self\<lparr>process := Some pid\<rparr>,
              out1 @ [Print Stdout (''Netcat listener started on port '' @ str_int (port self)
                                    @ '' with PID '' @ str_nat pid),
                      Thread_start pid Read_stdout,
                      Thread_start pid Read_stderr])
         | Spawn_FileNotFound \<Rightarrow>
             (self, out1 @ [Print Stderr ''Netcat (nc) is not installed. Please install it and try again.''])
         | Spawn_Exception e \<Rightarrow>
             (self, out1 @ [Print Stderr (''Error starting netcat: '' @ e)]))"

text \<open>
  \<^verbatim>\<open>NetcatListener._read_stdout\<close>, run from a given place in its loop on the
  results of the \<^verbatim>\<open>readline()\<close> calls that return in some stretch of time. The
  flag \<^verbatim>\<open>self.running\<close> is tested at the head of the loop only, before the call
  of \<^verbatim>\<open>readline()\<close>: a call that is under way when the flag is cleared still has
  its line put on the queue, if the line is not empty. With no result left the
  thread stays inside \<^verbatim>\<open>readline()\<close>. The \<^verbatim>\<open>break\<close> is never taken:
  \<^verbatim>\<open>self.process.stdout.closed\<close> is set by \<^verbatim>\<open>close()\<close> alone, which the program
  never calls.
\<close>

function read_stdout :: "reader \<Rightarrow> string list \<Rightarrow> listener \<Rightarrow> listener \<times> reader" where
  "read_stdout Ended results self = (self, Ended)"
| "read_stdout At_test results self =
     (if running self then read_stdout In_readline results self else (self, Ended))"
| "read_stdout In_readline [] self = (self, In_readline)"
| "read_stdout In_readline (output # rest) self =
     read_stdout At_test rest
       (if output \<noteq> [] then self\<lparr>stdout_queue := stdout_queue self @ [output]\<rparr> else self)"
  by pat_completeness auto
termination
  by (relation "measure (\<lambda>(r, results, self). 2 * length results + (if r = At_test then 1 else 0))")
     auto

text \<open>
  \<^verbatim>\<open>NetcatListener.stop\<close>. A \<^verbatim>\<open>Popen\<close> object is always truthy, so
  \<^verbatim>\<open>if self.process\<close> tests that the handle is not \<^verbatim>\<open>None\<close>. The handle is never reset.
\<close>

definition stop :: "listener \<Rightarrow> event list \<Rightarrow> listener \<times> event list" where
  "stop self out =
     (case process self of
        Some pid \<Rightarrow>
          (self\<lparr>running := False\<rparr>,
           out @ [Print Stdout (''Stopping netcat listener on port '' @ str_int (port self) @ ''...''),
                  Terminate pid,
                  Wait pid,
                  Print Stdout (''Netcat listener stopped on port '' @ str_int (port self) @ ''.'')])
      | None \<Rightarrow>
          (self, out @ [Print Stdout (''Netcat listener on port '' @ str_int (port self)
                                      @ '' is not running.'')]))"

text \<open>
  \<^verbatim>\<open>NetcatListener.send_data\<close>. The stream is line buffered, so the write of the
  text with its newline goes to the pipe at once, and it is the write that raises or
  blocks; the flush follows a write that was accepted. Nothing catches the exception.
\<close>

definition send_data ::
    "write_result \<Rightarrow> listener \<Rightarrow> string \<Rightarrow> event list \<Rightarrow> (listener \<times> event list) outcome" where
  "send_data w self data out =
     (case process self of
        Some pid \<Rightarrow>
          (case w of
             Written \<Rightarrow> Return (self, out @ [Stdin_write pid (data @ [CHR 0x0A]), Stdin_flush pid])
           | Broken_pipe \<Rightarrow> Raise BrokenPipeError
           | Blocked \<Rightarrow> Hang)
      | None \<Rightarrow> Return (self, out))"

text \<open>
  \<^verbatim>\<open>NetcatListener.receive_data\<close>. The loop takes items off the queue, oldest first,
  until the queue is empty; it returns the text gathered and the queue left.
\<close>

fun drain :: "string list \<Rightarrow> string \<Rightarrow> string \<times> string list" where
  "drain [] output = (output, [])"
| "drain (item # queue) output = drain queue (output @ item)"

definition receive_data :: "listener \<Rightarrow> string \<times> listener" where
  "receive_data self =
     (let (output, queue) = drain (stdout_queue self) []
      in (strip output, self\<lparr>stdout_queue := queue\<rparr>))"

section \<open>ConnectionManager\<close>

text \<open>
  The dictionary \<^verbatim>\<open>connections\<close> keeps its keys in insertion order; it is an
  association list with \<^const>\<open>AList.update\<close> for \<^verbatim>\<open>d[k] = v\<close> (a new key goes to the
  end), \<^const>\<open>AList.delete\<close> for \<^verbatim>\<open>del d[k]\<close> and \<^const>\<open>map_of\<close> for the lookup.
\<close>

record manager =
  connections :: "(int \<times> listener) list"
  selected_port :: "int option"

text \<open>\<^verbatim>\<open>ConnectionManager.__init__\<close>\<close>

definition ConnectionManager :: manager where
  "ConnectionManager = \<lparr>connections = [], selected_port = None\<rparr>"

text \<open>\<^verbatim>\<open>port in self.connections\<close>\<close>

definition has_key :: "int \<Rightarrow> (int \<times> listener) list \<Rightarrow> bool" where
  "has_key p d = (map_of d p \<noteq> None)"

text \<open>\<^verbatim>\<open>ConnectionManager.add_connection\<close>\<close>

definition add_connection :: "spawn_result \<Rightarrow> manager \<Rightarrow> int \<Rightarrow> event list \<Rightarrow> manager \<times> event list" where
  "add_connection r self p out =
     (if \<not> has_key p (connections self)
      then let (listener, out1) = start r (NetcatListener p) out
           in (self\<lparr>connections := AList.update p listener (connections self)\<rparr>, out1)
      else (self, out @ [Print Stdout (''Connection on port '' @ str_int p @ '' already exists.'')]))"

text \<open>\<^verbatim>\<open>ConnectionManager.remove_connection\<close>\<close>

definition remove_connection :: "manager \<Rightarrow> int \<Rightarrow> event list \<Rightarrow> manager \<times> event list" where
  "remove_connection self p out =
     (case map_of (connections self) p of
        Some listener \<Rightarrow>
          (let (listener', out1) = stop listener out
           in (self\<lparr>connections := AList.delete p (connections self)\<rparr>, out1))
      | None \<Rightarrow>
          (self, out @ [Print Stdout (''No connection on port '' @ str_int p @ '' to remove.'')]))"

text \<open>\<^verbatim>\<open>ConnectionManager.list_connections\<close>\<close>

definition list_connections :: "manager \<Rightarrow> int list" where
  "list_connections self = map fst (connections self)"

text \<open>\<^verbatim>\<open>ConnectionManager.select_connection\<close>\<close>

definition select_connection :: "manager \<Rightarrow> int \<Rightarrow> event list \<Rightarrow> manager \<times> event list" where
  "select_connection self p out =
     (if has_key p (connections self)
      then (self\<lparr>selected_port := Some p\<rparr>,
            out @ [Print Stdout (''Selected connection on port '' @ str_int p @ ''.'')])
      else (self, out @ [Print Stdout (''No connection on port '' @ str_int p @ ''.'')]))"

text \<open>
  \<^verbatim>\<open>ConnectionManager.send_command\<close>. \<^verbatim>\<open>None\<close> is never a key, so
  \<^verbatim>\<open>self.selected_port in self.connections\<close> fails when nothing is selected. An
  exception of \<^verbatim>\<open>send_data\<close> goes through: there is no sleep, no read and no
  result then. While the caller sleeps, the capture thread of a spawned process goes
  on from where it is in its loop: \<open>reader\<close> is that place, and \<open>arrived\<close> is what
  its \<^verbatim>\<open>readline()\<close> calls return in that time. A listener without a process handle
  has no capture thread. The listener is an object shared with the dictionary, so
  its drained queue is stored back under the same key.
\<close>

definition send_command ::
    "write_result \<Rightarrow> reader \<Rightarrow> string list \<Rightarrow> manager \<Rightarrow> string \<Rightarrow> event list
     \<Rightarrow> (string option \<times> manager \<times> event list) outcome" where
  "send_command w reader arrived self command out =
     (case selected_port self of
        None \<Rightarrow> Return (None, self, out @ [Print Stdout ''No connection selected.''])
      | Some p \<Rightarrow>
          (case map_of (connections self) p of
             None \<Rightarrow> Return (None, self, out @ [Print Stdout ''No connection selected.''])
           | Some listener \<Rightarrow>
               (case send_data w listener command out of
                  Raise e \<Rightarrow> Raise e
                | Hang \<Rightarrow> Hang
                | Return (l1, out1) \<Rightarrow>
                    (let out2 = out1 @ [Sleep_ms 500];
                         l2 = (case process l1 of
                                 Some pid \<Rightarrow> fst (read_stdout reader arrived l1)
                               | None \<Rightarrow> l1);
                         (response, l3) = receive_data l2
                     in Return (Some response,
                                self\<lparr>connections := AList.update p l3 (connections self)\<rparr>,
                                out2)))))"

text \<open>
  \<^verbatim>\<open>ConnectionManager.stop_all\<close>. The \<^verbatim>\<open>for\<close> loop runs an iterator over
  \<^verbatim>\<open>self.connections.keys()\<close>. Each step of a dictionary iterator first compares the
  size of the dictionary with the size it had when the iterator was made, and raises
  \<^verbatim>\<open>RuntimeError\<close> (dictionary changed size during iteration) when they differ; then
  it yields the key at its position, or ends the loop past the last one. What has been
  done to the manager before the exception stays done.
\<close>

function stop_all_loop ::
    "nat \<Rightarrow> nat \<Rightarrow> manager \<Rightarrow> event list \<Rightarrow> py_error option \<times> manager \<times> event list" where
  "stop_all_loop used i self out =
     (if length (connections self) \<noteq> used then (Some RuntimeError, self, out)
      else if i < length (connections self)
      then (let (self', out') = remove_connection self (fst (connections self ! i)) out
            in stop_all_loop used (Suc i) self' out')
      else (None, self, out))"
  by pat_completeness auto
termination
  by (relation "measure (\<lambda>(used, i, self, out). used - i)") auto

definition stop_all :: "manager \<Rightarrow> event list \<Rightarrow> py_error option \<times> manager \<times> event list" where
  "stop_all self out = stop_all_loop (length (connections self)) 0 self out"

text \<open>
  The start of each round of the main loop (lines 158 to 161): when
  \<^verbatim>\<open>manager.selected_port\<close> is truthy (set, and not the integer 0), the selected
  listener is looked up by subscript, which raises \<^verbatim>\<open>KeyError\<close> on a missing key, and
  what it has captured is printed if there is any.
\<close>

definition main_poll :: "manager \<Rightarrow> event list \<Rightarrow> py_error option \<times> manager \<times> event list" where
  "main_poll self out =
     (case selected_port self of
        None \<Rightarrow> (None, self, out)
      | Some p \<Rightarrow>
          if p = 0 then (None, self, out)
          else (case map_of (connections self) p of
                  None \<Rightarrow> (Some KeyError, self, out)
                | Some listener \<Rightarrow>
                    (let (response, l') = receive_data listener
                     in (None,
                         self\<lparr>connections := AList.update p l' (connections self)\<rparr>,
                         if response \<noteq> []
                         then out @ [Print Stdout ([CHR 0x0A] @ ''Received from port '' @ str_int p
                                                   @ '':'' @ [CHR 0x0A] @ response)]
                         else out))))"

section \<open>Facts about the model\<close>

declare str_nat.simps [simp del]
declare stop_all_loop.simps [simp del]

lemmas run_defs =
  add_connection_def remove_connection_def select_connection_def list_connections_def
  has_key_def ConnectionManager_def NetcatListener_def start_def stop_def
  str_int_def digit_def

lemma drain_concat: "drain queue acc = (acc @ concat queue, [])"
  by (induction queue arbitrary: acc) simp_all

lemma receive_data_concat:
  "receive_data self = (strip (concat (stdout_queue self)), self\<lparr>stdout_queue := []\<rparr>)"
  by (simp add: receive_data_def drain_concat)

lemma strip_Nil: "strip [] = []"
  by (simp add: strip_def rstrip_def lstrip_def)

lemma read_stdout_running: "running (fst (read_stdout r results self)) = running self"
  by (induction r results self rule: read_stdout.induct) simp_all


lemma update_fresh: "map_of d k = None \<Longrightarrow> AList.update k v d = d @ [(k, v)]"
  by (induction d) (auto split: if_splits)


lemma has_key_keys: "has_key p d \<longleftrightarrow> p \<in> set (map fst d)"
  by (simp add: has_key_def map_of_eq_None_iff)

lemma delete_first_shorter: "length (AList.delete k ((k, v) # xs)) < Suc (length xs)"
proof -
  have "length (AList.delete k xs) \<le> length xs"
    by (rule length_delete_le)
  then show ?thesis by simp
qed

text \<open>Nothing in \<^const>\<open>remove_connection\<close> writes \<^const>\<open>selected_port\<close>.\<close>

lemma remove_connection_selected_port:
  "selected_port (fst (remove_connection self p out)) = selected_port self"
  by (simp add: remove_connection_def stop_def split: option.splits prod.splits)

text \<open>
  On a manager with at least one connection, \<^const>\<open>stop_all\<close> removes the first key and
  then raises: the second step of the iterator finds the dictionary smaller.
\<close>

lemma stop_all_nonempty:
  assumes "connections self \<noteq> []"
  shows "stop_all self out =
           (Some RuntimeError,
            fst (remove_connection self (fst (hd (connections self))) out),
            snd (remove_connection self (fst (hd (connections self))) out))"
proof -
  obtain x xs where cs: "connections self = x # xs"
    using assms by (cases "connections self") auto
  obtain k l where x: "x = (k, l)" by (cases x)
  have rm: "remove_connection self k out =
              (self\<lparr>connections := AList.delete k (x # xs)\<rparr>, snd (stop l out))"
    by (simp add: remove_connection_def cs x split: prod.splits)
  have len: "length (AList.delete k (x # xs)) \<noteq> Suc (length xs)"
    using delete_first_shorter [of k l xs] by (simp add: x)
  show ?thesis
    unfolding stop_all_def
    apply (subst stop_all_loop.simps)
    apply (simp add: cs x rm)
    apply (subst stop_all_loop.simps)
    using len apply (simp add: x)
    done
qed

lemma stop_all_empty: "connections self = [] \<Longrightarrow> stop_all self out = (None, self, out)"
  by (simp add: stop_all_def stop_all_loop.simps)

text \<open>
  A call of \<^verbatim>\<open>readline()\<close> that is under way when \<^verbatim>\<open>self.running\<close> is cleared
  still has its line queued; the thread then ends, and a later line is not read.
\<close>

lemma read_stdout_in_flight:
  "read_stdout In_readline [''late'', ''later''] ((NetcatListener 4444)\<lparr>process := Some 100, running := False\<rparr>) =
     ((NetcatListener 4444)\<lparr>process := Some 100, running := False, stdout_queue := [''late'']\<rparr>, Ended)"
  by (simp add: NetcatListener_def)

text \<open>What \<^const>\<open>send_command\<close> does when the selected port is a key.\<close>

lemma send_command_selected:
  assumes "selected_port m = Some p" and "map_of (connections m) p = Some l"
  shows "send_command w reader arrived m cmd out =
           (case send_data w l cmd out of
              Raise e \<Rightarrow> Raise e
            | Hang \<Rightarrow> Hang
            | Return (l1, out1) \<Rightarrow>
                Return
                  (Some (fst (receive_data (case process l of
                                              Some pid \<Rightarrow> fst (read_stdout reader arrived l)
                                            | None \<Rightarrow> l))),
                   m\<lparr>connections :=
                        AList.update p
                          (snd (receive_data (case process l of
                                                Some pid \<Rightarrow> fst (read_stdout reader arrived l)
                                              | None \<Rightarrow> l)))
                          (connections m)\<rparr>,
                   out1 @ [Sleep_ms 500]))"
  using assms
  by (simp add: send_command_def send_data_def split: option.splits prod.splits write_result.splits)

text \<open>\<^const>\<open>add_connection\<close> on a key that is present, and the keys after it.\<close>

lemma add_connection_present:
  assumes "has_key p (connections m)"
  shows "add_connection r m p out =
           (m, out @ [Print Stdout (''Connection on port '' @ str_int p @ '' already exists.'')])"
  using assms by (simp add: add_connection_def)

lemma add_connection_keys:
  "list_connections (fst (add_connection r m p out)) =
     (if has_key p (connections m) then list_connections m else list_connections m @ [p])"
proof (cases "has_key p (connections m)")
  case True
  then show ?thesis by (simp add: add_connection_present)
next
  case False
  then have "AList.update p v (connections m) = connections m @ [(p, v)]" for v
    by (simp add: has_key_def update_fresh)
  with False show ?thesis
    by (simp add: add_connection_def list_connections_def split: prod.splits)
qed

lemma count_list_distinct: "distinct xs \<Longrightarrow> x \<in> set xs \<Longrightarrow> count_list xs x = 1"
  by (induction xs) auto

section \<open>The selection and the registered sessions\<close>

text \<open>
  C1. The claim: in every reachable state a set \<^const>\<open>selected_port\<close> is a key of
  \<^const>\<open>connections\<close>, and removing the selected port clears the selection. The code at
  \<^verbatim>\<open>add 4444\<close>, \<^verbatim>\<open>select 4444\<close>, \<^verbatim>\<open>remove 4444\<close>: the port is still selected
  after the removal, no connection is left, and the next round of the main loop,
  which subscripts \<^verbatim>\<open>connections\<close> with the selected port, raises \<^verbatim>\<open>KeyError\<close>.
\<close>

theorem select_remove_keeps_selected:
  "let (m1, o1) = add_connection (Spawned 100) ConnectionManager 4444 [];
       (m2, o2) = select_connection m1 4444 o1;
       (m3, o3) = remove_connection m2 4444 o2
   in selected_port m2 = Some 4444 \<and> selected_port m3 = Some 4444
      \<and> list_connections m3 = []
      \<and> main_poll m3 o3 = (Some KeyError, m3, o3)"
  by (simp add: run_defs main_poll_def str_nat.simps)

section \<open>Stopping all sessions\<close>

text \<open>
  C2. The claim: \<^verbatim>\<open>stop_all\<close> removes every session, so that the list of connections
  is empty and nothing is selected. The code on two sessions, 4444 (selected) and 5555:
  the first is stopped and removed, then the loop raises \<^verbatim>\<open>RuntimeError\<close>; 5555 is
  still registered, its process was never terminated, and 4444 is still selected.
  A second call is no no-op: it removes 5555 and raises again.
\<close>

theorem stop_all_two_sessions:
  "let (m1, o1) = add_connection (Spawned 100) ConnectionManager 4444 [];
       (m2, o2) = add_connection (Spawned 101) m1 5555 o1;
       (m3, o3) = select_connection m2 4444 o2;
       (e, m4, o4) = stop_all m3 o3;
       (e', m5, o5) = stop_all m4 o4
   in list_connections m3 = [4444, 5555]
      \<and> e = Some RuntimeError
      \<and> list_connections m4 = [5555]
      \<and> selected_port m4 = Some 4444
      \<and> o4 = o3 @ [Print Stdout ''Stopping netcat listener on port 4444...'',
                    Terminate 100, Wait 100,
                    Print Stdout ''Netcat listener stopped on port 4444.'']
      \<and> e' = Some RuntimeError
      \<and> list_connections m5 = []
      \<and> selected_port m5 = Some 4444"
  by (simp add: run_defs stop_all_def stop_all_loop.simps str_nat.simps)

section \<open>A spawn that fails\<close>

text \<open>
  C3, as stated: when the spawn fails, the port is not registered. It fails on the
  empty manager with \<^verbatim>\<open>FileNotFoundError\<close>: port 4444 was not a key, and is one
  afterwards.
\<close>

theorem add_connection_failed_spawn_registers:
  "\<not> has_key 4444 (connections ConnectionManager)
   \<and> fst (add_connection Spawn_FileNotFound ConnectionManager 4444 []) \<noteq> ConnectionManager
   \<and> has_key 4444 (connections (fst (add_connection Spawn_FileNotFound ConnectionManager 4444 [])))"
  by (simp add: run_defs str_nat.simps)

text \<open>
  C3, amended: for a port that is not registered, a spawn that fails (with
  \<^verbatim>\<open>FileNotFoundError\<close> or with any other exception) is reported on the error stream,
  and the session is registered all the same, last in the order of insertion, in
  the state its constructor gave it (no process handle); the selection and the
  other sessions are untouched.
\<close>

theorem add_connection_spawn_failure:
  assumes "\<not> has_key p (connections m)"
  shows "add_connection Spawn_FileNotFound m p out =
           (m\<lparr>connections := connections m @ [(p, NetcatListener p)]\<rparr>,
            out @ [Print Stdout (''Starting netcat listener on port '' @ str_int p @ ''...''),
                   Popen [''nc'', ''-l'', ''-p'', str_int p],
                   Print Stderr ''Netcat (nc) is not installed. Please install it and try again.''])
       \<and> add_connection (Spawn_Exception e) m p out =
           (m\<lparr>connections := connections m @ [(p, NetcatListener p)]\<rparr>,
            out @ [Print Stdout (''Starting netcat listener on port '' @ str_int p @ ''...''),
                   Popen [''nc'', ''-l'', ''-p'', str_int p],
                   Print Stderr (''Error starting netcat: '' @ e)])"
proof -
  have "map_of (connections m) p = None"
    using assms by (simp add: has_key_def)
  then have "AList.update p v (connections m) = connections m @ [(p, v)]" for v
    by (rule update_fresh)
  then show ?thesis
    using assms by (simp add: add_connection_def start_def NetcatListener_def)
qed

theorem add_connection_spawn_failure_witness:
  "\<not> has_key 4444 (connections ConnectionManager)
   \<and> add_connection Spawn_FileNotFound ConnectionManager 4444 [] =
       (\<lparr>connections = [(4444, NetcatListener 4444)], selected_port = None\<rparr>,
        [Print Stdout ''Starting netcat listener on port 4444...'',
         Popen [''nc'', ''-l'', ''-p'', ''4444''],
         Print Stderr ''Netcat (nc) is not installed. Please install it and try again.''])"
  using add_connection_spawn_failure [of 4444 ConnectionManager "[]" "[]"]
  by (simp add: has_key_def ConnectionManager_def str_int_def digit_def str_nat.simps)

section \<open>Reading what was captured\<close>



section \<open>Stopping a session\<close>

text \<open>
  C5, as stated: \<^verbatim>\<open>stop\<close> on a session that has already been stopped reports
  that it is not running and attempts no termination. The code on the session of
  port 4444, spawned with PID 100 and stopped once: the handle is still set, and the
  second \<^verbatim>\<open>stop\<close> reports stopping and stopped, with \<^verbatim>\<open>terminate()\<close> and \<^verbatim>\<open>wait()\<close>
  called again.
\<close>

theorem stop_again_terminates_again:
  "process (fst (stop (fst (start (Spawned 100) (NetcatListener 4444) [])) [])) = Some 100
   \<and> stop (fst (stop (fst (start (Spawned 100) (NetcatListener 4444) [])) [])) [] =
       (fst (stop (fst (start (Spawned 100) (NetcatListener 4444) [])) []),
        [Print Stdout ''Stopping netcat listener on port 4444...'',
         Terminate 100,
         Wait 100,
         Print Stdout ''Netcat listener stopped on port 4444.''])
   \<and> Terminate 100 \<in> set (snd (stop (fst (stop (fst (start (Spawned 100) (NetcatListener 4444) [])) [])) []))"
  by (simp add: run_defs str_nat.simps)

text \<open>
  C5, amended: on a session whose process handle is unset (never started, or
  the spawn failed), \<^verbatim>\<open>stop\<close> changes nothing and reports that the listener is
  not running. On a session with a handle, \<^verbatim>\<open>stop\<close> keeps the handle, so a
  second \<^verbatim>\<open>stop\<close> runs the same sequence again (both reports, \<^verbatim>\<open>terminate()\<close>,
  \<^verbatim>\<open>wait()\<close>) and leaves the session as the first one left it. Neither fails.
\<close>

theorem stop_by_handle:
  "case process l of
     None \<Rightarrow>
       stop l out = (l, out @ [Print Stdout (''Netcat listener on port '' @ str_int (port l)
                                             @ '' is not running.'')])
   | Some pid \<Rightarrow>
       process (fst (stop l out)) = Some pid
       \<and> stop (fst (stop l out)) (snd (stop l out)) =
           (fst (stop l out),
            snd (stop l out)
            @ [Print Stdout (''Stopping netcat listener on port '' @ str_int (port l) @ ''...''),
               Terminate pid,
               Wait pid,
               Print Stdout (''Netcat listener stopped on port '' @ str_int (port l) @ ''.'')])"
  by (simp add: stop_def split: option.splits)

section \<open>Sending a command\<close>




text \<open>
  C8. With nothing selected, \<^verbatim>\<open>send_command\<close> returns \<^verbatim>\<open>None\<close>, prints
  "No connection selected." and leaves the manager as it was.
\<close>

theorem send_command_no_selection:
  assumes "selected_port m = None"
  shows "send_command w reader arrived m cmd out =
           Return (None, m, out @ [Print Stdout ''No connection selected.''])"
  using assms by (simp add: send_command_def)

theorem send_command_no_selection_witness:
  "selected_port ConnectionManager = None
   \<and> send_command Written In_readline [] ConnectionManager ''id'' [] =
       Return (None, ConnectionManager, [Print Stdout ''No connection selected.''])"
  using send_command_no_selection [of ConnectionManager Written In_readline "[]" "''id''" "[]"]
  by (simp add: ConnectionManager_def)

text \<open>
  C10. On a listener without a process handle \<^verbatim>\<open>send_data\<close> writes nothing and
  changes nothing, whatever a write would have met. So when such a listener is
  registered under the selected port (as after a spawn that failed),
  \<^verbatim>\<open>send_command\<close> sleeps, drains the queue and returns, with no event other than
  the sleep.
\<close>

theorem send_data_without_process:
  assumes "process l = None"
  shows "send_data w l cmd out = Return (l, out)
       \<and> (let m' = m\<lparr>connections := AList.update p l (connections m), selected_port := Some p\<rparr>
          in send_command w reader arrived m' cmd out =
               Return (Some (strip (concat (stdout_queue l))),
                       m'\<lparr>connections := AList.update p (l\<lparr>stdout_queue := []\<rparr>) (connections m')\<rparr>,
                       out @ [Sleep_ms 500]))"
proof -
  let ?m' = "m\<lparr>connections := AList.update p l (connections m), selected_port := Some p\<rparr>"
  have sd: "send_data w l cmd out = Return (l, out)"
    using assms by (simp add: send_data_def)
  have sel: "selected_port ?m' = Some p" by simp
  have look: "map_of (connections ?m') p = Some l"
    by (simp add: update_conv')
  show ?thesis
    using send_command_selected [OF sel look, of w reader arrived cmd out] sd assms
    by (simp add: Let_def receive_data_concat)
qed

theorem send_data_without_process_witness:
  "process (NetcatListener 4444) = None
   \<and> send_data Broken_pipe (NetcatListener 4444) ''id'' [] = Return (NetcatListener 4444, [])
   \<and> send_command Broken_pipe In_readline []
        (fst (select_connection (fst (add_connection Spawn_FileNotFound ConnectionManager 4444 [])) 4444 []))
        ''id'' [] =
       Return (Some [],
        fst (select_connection (fst (add_connection Spawn_FileNotFound ConnectionManager 4444 [])) 4444 []),
        [Sleep_ms 500])"
  using send_data_without_process [where l = "NetcatListener 4444" and w = Broken_pipe and cmd = "''id''" and out = "[]"
             and p = 4444 and m = ConnectionManager and reader = In_readline and arrived = "[]"]
  by (simp add: run_defs Let_def strip_Nil str_nat.simps)

section \<open>Adding and selecting\<close>

text \<open>
  C7. \<^verbatim>\<open>add_connection\<close> on a port that is already a key prints that the
  connection already exists and changes nothing. So after two calls for the same
  port, whatever the spawns did, the second call has reported the duplicate and
  changed nothing, and the port occurs exactly once in \<^verbatim>\<open>list_connections\<close>. The
  keys of a dictionary are distinct, which is the hypothesis.
\<close>

theorem add_connection_twice:
  assumes "distinct (list_connections m)"
  shows "(has_key p (connections m) \<longrightarrow>
            add_connection r m p out =
              (m, out @ [Print Stdout (''Connection on port '' @ str_int p @ '' already exists.'')]))
       \<and> (let (m1, out1) = add_connection r m p out;
               (m2, out2) = add_connection r' m1 p out1
           in m2 = m1
              \<and> out2 = out1 @ [Print Stdout (''Connection on port '' @ str_int p @ '' already exists.'')]
              \<and> count_list (list_connections m2) p = 1
              \<and> distinct (list_connections m2))"
proof -
  obtain m1 out1 where a1: "add_connection r m p out = (m1, out1)"
    by (cases "add_connection r m p out")
  have keys: "list_connections m1 =
                (if has_key p (connections m) then list_connections m else list_connections m @ [p])"
    using add_connection_keys [of r m p out] by (simp add: a1)
  have mem: "p \<in> set (list_connections m1)"
    unfolding keys by (simp add: has_key_keys list_connections_def)
  then have key1: "has_key p (connections m1)"
    by (simp add: has_key_keys list_connections_def)
  have dist: "distinct (list_connections m1)"
    unfolding keys using assms by (simp add: has_key_keys list_connections_def)
  have cnt: "count_list (list_connections m1) p = 1"
    using dist mem by (rule count_list_distinct)
  show ?thesis
    using add_connection_present [of p m r out] add_connection_present [OF key1, of r' out1] cnt dist
    by (simp add: a1)
qed

theorem add_connection_twice_witness:
  "distinct (list_connections \<lparr>connections = [(4444, NetcatListener 4444)], selected_port = None\<rparr>)
   \<and> has_key 4444 (connections \<lparr>connections = [(4444, NetcatListener 4444)], selected_port = None\<rparr>)
   \<and> add_connection (Spawned 100) \<lparr>connections = [(4444, NetcatListener 4444)], selected_port = None\<rparr> 4444 [] =
       (\<lparr>connections = [(4444, NetcatListener 4444)], selected_port = None\<rparr>,
        [Print Stdout ''Connection on port 4444 already exists.''])
   \<and> count_list (list_connections (fst (add_connection (Spawned 100)
         \<lparr>connections = [(4444, NetcatListener 4444)], selected_port = None\<rparr> 4444 []))) 4444 = 1"
  using add_connection_twice
          [of "\<lparr>connections = [(4444, NetcatListener 4444)], selected_port = None\<rparr>" 4444
              "Spawned 100" "[]" "Spawned 101"]
  by (simp add: list_connections_def has_key_def str_int_def digit_def str_nat.simps)

text \<open>
  C9. \<^verbatim>\<open>select_connection\<close> on a port that is a key selects it and says so; on
  any other port it prints that there is no connection on that port and leaves the
  selection as it was. The connections are the same afterwards in both cases.
\<close>

theorem select_connection_cases:
  "select_connection m p out =
     (if p \<in> set (list_connections m)
      then (m\<lparr>selected_port := Some p\<rparr>,
            out @ [Print Stdout (''Selected connection on port '' @ str_int p @ ''.'')])
      else (m, out @ [Print Stdout (''No connection on port '' @ str_int p @ ''.'')]))
   \<and> connections (fst (select_connection m p out)) = connections m"
  by (simp add: select_connection_def has_key_keys list_connections_def)

end
